theory Spec2Isabelle
  imports Main "HOL-Library.Sublist"
begin

section \<open>JavaScript values\<close>

text \<open>
  The values that flow through \<^verbatim>\<open>packages/expect/src/jest-extend.ts\<close>. A mock or spy
  function is represented by its \<^verbatim>\<open>mock.invocationCallOrder\<close> array; the call-order
  counters are integers, so \<open>Number\<close> carries an \<open>int\<close>. \<open>Opaque\<close> stands for any
  other object or function, identified by a reference.
\<close>

datatype jsval =
    Undefined
  | Null
  | Bool bool
  | Number int
  | Str string
  | Array "jsval list"
  | PlainObject "(string \<times> jsval) list"
  | MockFn "int list"
  | Opaque nat

text \<open>JavaScript's \<^verbatim>\<open>ToBoolean\<close>, used by \<^verbatim>\<open>!\<close>, \<^verbatim>\<open>&&\<close>, \<^verbatim>\<open>||\<close> and \<^verbatim>\<open>if\<close>.\<close>

fun truthy :: "jsval \<Rightarrow> bool" where
  "truthy Undefined = False"
| "truthy Null = False"
| "truthy (Bool b) = b"
| "truthy (Number n) = (n \<noteq> 0)"
| "truthy (Str s) = (s \<noteq> [])"
| "truthy (Array xs) = True"
| "truthy (PlainObject kvs) = True"
| "truthy (MockFn order) = True"
| "truthy (Opaque r) = True"

text \<open>Reading the \<open>i\<close>-th actual argument of a call: a missing argument is \<^verbatim>\<open>undefined\<close>.\<close>

definition arg :: "jsval list \<Rightarrow> nat \<Rightarrow> jsval" where
  "arg args i = (if i < length args then args ! i else Undefined)"

text \<open>
  \<^verbatim>\<open>Math.min(...xs)\<close> starts from \<^verbatim>\<open>+Infinity\<close> and keeps the smallest number seen, so its
  result on an empty array is \<^verbatim>\<open>Infinity\<close>.
\<close>

datatype jsnum = Finite int | Infinity

fun num_less :: "jsnum \<Rightarrow> jsnum \<Rightarrow> bool" where
  "num_less (Finite a) (Finite b) = (a < b)"
| "num_less (Finite a) Infinity = True"
| "num_less Infinity b = False"

definition Math_min :: "int list \<Rightarrow> jsnum" where
  "Math_min xs = fold (\<lambda>x lowest. if num_less (Finite x) lowest then Finite x else lowest) xs Infinity"

section \<open>Verdicts, deferred values and matchers\<close>

text \<open>
  \<^verbatim>\<open>SyncExpectationResult\<close>: \<^verbatim>\<open>{ pass: boolean, message: () => string, actual?, expected? }\<close>.
  An absent optional field reads as \<^verbatim>\<open>undefined\<close>.
\<close>

record verdict =
  pass :: bool
  message :: "unit \<Rightarrow> string"
  actual :: jsval
  expected :: jsval

text \<open>What a function can throw: the structured failure of this module, or anything else.\<close>

datatype thrown =
    JestExtendError string jsval jsval
  | OtherThrown jsval

text \<open>
  A promise is described by how it settles: fulfilled with a value, rejected with a
  reason, or never settled.
\<close>

datatype 'a promise = Fulfilled 'a | Rejected thrown | Pending

text \<open>
  \<^verbatim>\<open>p.then(f)\<close> for a callback \<open>f\<close> that returns a plain value or throws: the new promise
  is fulfilled with the callback's result, rejected with what the callback throws, and
  follows \<open>p\<close> when \<open>p\<close> is rejected or never settles.
\<close>

fun then_promise :: "'a promise \<Rightarrow> ('a \<Rightarrow> thrown + 'b) \<Rightarrow> 'b promise" where
  "then_promise (Fulfilled v) f = (case f v of Inl e \<Rightarrow> Rejected e | Inr r \<Rightarrow> Fulfilled r)"
| "then_promise (Rejected e) f = Rejected e"
| "then_promise Pending f = Pending"

text \<open>\<^verbatim>\<open>ExpectationResult = SyncExpectationResult | Promise<SyncExpectationResult>\<close>.\<close>

datatype expectation_result = Sync verdict | Async "verdict promise"

text \<open>
  The helpers a matcher takes from \<^verbatim>\<open>this.utils\<close>. They come from
  \<^verbatim>\<open>getMatcherUtils()\<close> of \<^verbatim>\<open>./jest-matcher-utils\<close> and are parameters of the model.
\<close>

record matcher_utils =
  matcherHint :: "string \<Rightarrow> string"
  printReceived :: "jsval \<Rightarrow> string"
  printExpected :: "jsval \<Rightarrow> string"

text \<open>
  \<^verbatim>\<open>MatcherState\<close>, the \<^verbatim>\<open>this\<close> of a matcher call. \<open>ambient\<close> holds the entries
  spread in from \<^verbatim>\<open>getState(expect)\<close>, \<open>customTesters\<close> the result of
  \<^verbatim>\<open>getCustomEqualityTesters()\<close>. The imported functions \<^verbatim>\<open>equals\<close>, \<^verbatim>\<open>diff\<close>,
  \<^verbatim>\<open>stringify\<close>, \<^verbatim>\<open>iterableEquality\<close> and \<^verbatim>\<open>subsetEquality\<close> are the same constants
  in every state and carry no field.
\<close>

record matcher_state =
  ambient :: "(string \<times> jsval) list"
  customTesters :: jsval
  isNot :: jsval
  utils :: matcher_utils
  promise :: jsval
  suppressedErrors :: "jsval list"
  soft :: jsval
  poll :: jsval

text \<open>
  A matcher (\<^verbatim>\<open>RawMatcherFn\<close>) is called with the state as \<^verbatim>\<open>this\<close>, the received value
  and the remaining arguments, and returns an \<^verbatim>\<open>ExpectationResult\<close>. The adapters have no
  handler around the call, so an exception of the matcher itself would pass through them
  unchanged; such matchers are left out.
\<close>

type_synonym matcher = "matcher_state \<Rightarrow> jsval \<Rightarrow> jsval list \<Rightarrow> expectation_result"

section \<open>The built-in call-order matcher\<close>

text \<open>
  Modelled from the spec: \<^verbatim>\<open>isJestMockOrSpy\<close> is imported from \<^verbatim>\<open>./utils\<close>, a module
  other than this one. The spec describes it as the mock/spy capability check,
  true of an object exposing an invocation-order record.
\<close>

fun isJestMockOrSpy :: "jsval \<Rightarrow> bool" where
  "isJestMockOrSpy (MockFn order) = True"
| "isJestMockOrSpy v = False"

text \<open>
  \<^verbatim>\<open>v.mock.invocationCallOrder\<close>. The matcher reads it only after \<open>isJestMockOrSpy\<close> has
  accepted \<open>v\<close>, so the second equation is never reached from it.
\<close>

fun invocationCallOrder :: "jsval \<Rightarrow> int list" where
  "invocationCallOrder (MockFn order) = order"
| "invocationCallOrder v = []"

definition predicate :: "int list \<Rightarrow> int list \<Rightarrow> jsval \<Rightarrow> bool" where
  "predicate firstInvocationCallOrder secondInvocationCallOrder failIfNoSecondInvocation =
     (if length firstInvocationCallOrder = 0 then False
      else if length secondInvocationCallOrder = 0 then \<not> truthy failIfNoSecondInvocation
      else num_less (Math_min firstInvocationCallOrder) (Math_min secondInvocationCallOrder))"

text \<open>
  \<^verbatim>\<open>toHaveBeenCalledBefore(actual, expected, failIfNoSecondInvocation = true)\<close>: the
  default value replaces an argument that is \<^verbatim>\<open>undefined\<close>. The verdicts carry no
  \<^verbatim>\<open>actual\<close> or \<^verbatim>\<open>expected\<close> field.
\<close>

definition toHaveBeenCalledBefore :: matcher where
  "toHaveBeenCalledBefore this actual' rest =
     (let expected' = arg rest 0;
          failIfNoSecondInvocation = (if arg rest 1 = Undefined then Bool True else arg rest 1);
          u = utils this
      in if \<not> isJestMockOrSpy actual' then
           Sync \<lparr>pass = False,
                 message = (\<lambda>_. matcherHint u ''.toHaveBeenCalledBefore'' @ ''\<newline>\<newline>''
                    @ ''Received value must be a mock or spy function\<newline>\<newline>''
                    @ ''Received: '' @ printReceived u actual'),
                 actual = Undefined, expected = Undefined\<rparr>
         else if \<not> isJestMockOrSpy expected' then
           Sync \<lparr>pass = False,
                 message = (\<lambda>_. matcherHint u ''.toHaveBeenCalledBefore'' @ ''\<newline>\<newline>''
                    @ ''Expected value must be a mock or spy function\<newline>\<newline>''
                    @ ''Expected: '' @ printExpected u expected'),
                 actual = Undefined, expected = Undefined\<rparr>
         else
           (let firstInvocationCallOrder = invocationCallOrder actual';
                secondInvocationCallOrder = invocationCallOrder expected';
                p = predicate firstInvocationCallOrder secondInvocationCallOrder
                      failIfNoSecondInvocation
            in Sync \<lparr>pass = p,
                 message = (\<lambda>_.
                    if p then
                      matcherHint u ''.not.toHaveBeenCalledBefore'' @ ''\<newline>\<newline>''
                      @ ''Expected first mock to not have been called before second mock, but it was.\<newline>\<newline>''
                      @ ''First mock call order: ''
                      @ printExpected u (Array (map Number firstInvocationCallOrder)) @ ''\<newline>''
                      @ ''Second mock call order: ''
                      @ printReceived u (Array (map Number secondInvocationCallOrder))
                    else
                      matcherHint u ''.toHaveBeenCalledBefore'' @ ''\<newline>\<newline>''
                      @ ''Expected first mock to have been called before second mock, but it was not.\<newline>\<newline>''
                      @ ''First mock call order: ''
                      @ printExpected u (Array (map Number firstInvocationCallOrder)) @ ''\<newline>''
                      @ ''Second mock call order: ''
                      @ printReceived u (Array (map Number secondInvocationCallOrder))),
                 actual = Undefined, expected = Undefined\<rparr>))"

section \<open>Assertions and the matcher state\<close>

text \<open>
  A live chai assertion: the subject \<^verbatim>\<open>_obj\<close> and the flag store. \<^verbatim>\<open>util.flag(a, key)\<close>
  reads a flag; a flag that was never set reads as \<^verbatim>\<open>undefined\<close>.
\<close>

record assertion =
  obj :: jsval
  flags :: "string \<rightharpoonup> jsval"

definition flag :: "assertion \<Rightarrow> string \<Rightarrow> jsval" where
  "flag a key = (case flags a key of None \<Rightarrow> Undefined | Some v \<Rightarrow> v)"

text \<open>What an installed fluent method returns: nothing, or a promise of nothing.\<close>

datatype ret = Void | Deferred "unit promise"

type_synonym fluent_fn = "assertion \<Rightarrow> jsval list \<Rightarrow> thrown + ret"

text \<open>
  The collaborators that live in other modules, as parameters: \<^verbatim>\<open>getState\<close> of
  \<^verbatim>\<open>./state\<close> (an entry point is identified by a reference), the accessors of
  \<^verbatim>\<open>./jest-matcher-utils\<close>, \<^verbatim>\<open>wrapSoft\<close> of \<^verbatim>\<open>./utils\<close>, the \<^verbatim>\<open>utils\<close> object
  that chai hands to a plugin, and \<^verbatim>\<open>getMatcherContext\<close> of the base class
  \<^verbatim>\<open>AsymmetricMatcher\<close> in \<^verbatim>\<open>./jest-asymmetric-matchers\<close>, a method that sees the
  instance's \<^verbatim>\<open>sample\<close> and \<^verbatim>\<open>inverse\<close> and is given the entry point.
\<close>

record env =
  getState :: "nat \<Rightarrow> (string \<times> jsval) list"
  getCustomEqualityTesters :: jsval
  getMatcherUtils :: matcher_utils
  chaiUtils :: jsval
  wrapSoft :: "jsval \<Rightarrow> fluent_fn \<Rightarrow> fluent_fn"
  getMatcherContext :: "jsval list \<Rightarrow> bool \<Rightarrow> nat \<Rightarrow> matcher_state"

text \<open>
  \<^verbatim>\<open>getMatcherState(assertion, expect)\<close>. The helpers that \<^verbatim>\<open>jestUtils\<close> adds to
  \<^verbatim>\<open>getMatcherUtils()\<close> are imported constants, so \<open>jestUtils\<close> is determined by
  \<^verbatim>\<open>getMatcherUtils()\<close>; \<^verbatim>\<open>promise\<close> is the flag, or the empty string when the flag is
  falsy.
\<close>

definition getMatcherState :: "env \<Rightarrow> assertion \<Rightarrow> nat \<Rightarrow> matcher_state \<times> jsval \<times> jsval" where
  "getMatcherState e assertion expect =
     (let obj' = obj assertion;
          isNot' = flag assertion ''negate'';
          promise' = (if truthy (flag assertion ''promise'') then flag assertion ''promise''
                      else Str []);
          jestUtils = getMatcherUtils e;
          matcherState = \<lparr>ambient = getState e expect,
                          customTesters = getCustomEqualityTesters e,
                          isNot = isNot',
                          utils = jestUtils,
                          promise = promise',
                          suppressedErrors = [],
                          soft = flag assertion ''soft'',
                          poll = flag assertion ''poll''\<rparr>
      in (matcherState, isNot', obj'))"

section \<open>The fluent adapter\<close>

text \<open>
  \<^verbatim>\<open>expectWrapper\<close> for the matcher \<open>expectAssertion\<close> registered through the entry point
  \<open>expect\<close>. The test \<^verbatim>\<open>result && typeof result === 'object' && result instanceof Promise\<close>
  holds of a promise and fails of a verdict object. A thrown \<^verbatim>\<open>JestExtendError\<close> is the
  \<open>Inl\<close> result; inside the \<^verbatim>\<open>then\<close> callback it rejects the promise that is returned.
\<close>

definition expectWrapper :: "env \<Rightarrow> nat \<Rightarrow> matcher \<Rightarrow> fluent_fn" where
  "expectWrapper e expect expectAssertion this args =
     (case getMatcherState e this expect of (state, isNot', obj') \<Rightarrow>
        (case expectAssertion state obj' args of
           Async result \<Rightarrow>
             Inr (Deferred (then_promise result (\<lambda>v.
               if (pass v \<and> truthy isNot') \<or> (\<not> pass v \<and> \<not> truthy isNot')
               then Inl (JestExtendError (message v ()) (actual v) (expected v))
               else Inr ())))
         | Sync v \<Rightarrow>
             if (pass v \<and> truthy isNot') \<or> (\<not> pass v \<and> \<not> truthy isNot')
             then Inl (JestExtendError (message v ()) (actual v) (expected v))
             else Inr Void))"

section \<open>The asymmetric adapter\<close>

text \<open>
  An instance of the class \<^verbatim>\<open>CustomMatcher\<close> that the plugin creates for one matcher:
  the fields \<^verbatim>\<open>sample\<close> and \<^verbatim>\<open>inverse\<close> of the base class, and the three variables
  the class closes over (the matcher's name, the matcher, the entry point).
\<close>

record custom_matcher =
  sample :: "jsval list"
  inverse :: bool
  boundName :: string
  boundAssertion :: matcher
  boundExpect :: nat

text \<open>
  \<^verbatim>\<open>new CustomMatcher(inverse, ...sample)\<close> for the class created for one entry; the
  constructor hands \<^verbatim>\<open>sample\<close> and \<^verbatim>\<open>inverse\<close> to the base class.
\<close>

definition CustomMatcher ::
    "string \<Rightarrow> matcher \<Rightarrow> nat \<Rightarrow> bool \<Rightarrow> jsval list \<Rightarrow> custom_matcher" where
  "CustomMatcher expectAssertionName expectAssertion expect inverse' sample' =
     \<lparr>sample = sample', inverse = inverse', boundName = expectAssertionName,
      boundAssertion = expectAssertion, boundExpect = expect\<rparr>"

text \<open>
  \<^verbatim>\<open>const { pass } = result\<close>: a verdict has the field; a promise has no such property,
  so the variable is \<^verbatim>\<open>undefined\<close>.
\<close>

fun read_pass :: "expectation_result \<Rightarrow> jsval" where
  "read_pass (Sync v) = Bool (pass v)"
| "read_pass (Async p) = Undefined"

definition asymmetricMatch :: "env \<Rightarrow> custom_matcher \<Rightarrow> jsval \<Rightarrow> jsval" where
  "asymmetricMatch e this other =
     (let passed = read_pass (boundAssertion this
                     (getMatcherContext e (sample this) (inverse this) (boundExpect this))
                     other (sample this))
      in if inverse this then Bool (\<not> truthy passed) else passed)"

definition toString :: "custom_matcher \<Rightarrow> string" where
  "toString this = (if inverse this then ''not.'' else []) @ boundName this"

definition getExpectedType :: "custom_matcher \<Rightarrow> string" where
  "getExpectedType this = ''any''"

text \<open>
  Modelled from the spec: \<^verbatim>\<open>AsymmetricMatcher.getMatcherContext\<close> is a method of the
  base class, defined in another module. The spec gives a matcher context
  the field \<^verbatim>\<open>isNot\<close>, taken from the negation that is active at call time, and the
  shared state and utilities read through the accessors; an asymmetric instance has no
  live assertion, so its negation is its own \<^verbatim>\<open>inverse\<close> and the flags of an assertion
  are absent. The sample collaborators below use this builder.
\<close>

definition inverseMatcherContext ::
    "(nat \<Rightarrow> (string \<times> jsval) list) \<Rightarrow> jsval \<Rightarrow> matcher_utils
      \<Rightarrow> jsval list \<Rightarrow> bool \<Rightarrow> nat \<Rightarrow> matcher_state" where
  "inverseMatcherContext state testers mutils sample' inverse' expect =
     \<lparr>ambient = state expect, customTesters = testers, isNot = Bool inverse', utils = mutils,
      promise = Undefined, suppressedErrors = [], soft = Undefined, poll = Undefined\<rparr>"

section \<open>Registration\<close>

text \<open>
  An object with string keys, as the ordered list of its entries (\<^verbatim>\<open>Object.entries\<close>).
  Writing a property replaces the value of a key that is present, in place, and appends
  a key that is new. The spread \<^verbatim>\<open>{...src}\<close> writes the entries of \<open>src\<close> in order.
\<close>

fun set_property :: "(string \<times> 'v) list \<Rightarrow> string \<Rightarrow> 'v \<Rightarrow> (string \<times> 'v) list" where
  "set_property [] k v = [(k, v)]"
| "set_property ((k', v') # kvs) k v =
     (if k' = k then (k, v) # kvs else (k', v') # set_property kvs k v)"

definition spread :: "(string \<times> 'v) list \<Rightarrow> (string \<times> 'v) list \<Rightarrow> (string \<times> 'v) list" where
  "spread target src = fold (\<lambda>(k, v) acc. set_property acc k v) src target"

text \<open>
  The surfaces the plugin writes to: \<^verbatim>\<open>globalThis[JEST_MATCHERS_OBJECT].matchers\<close>,
  \<^verbatim>\<open>c.Assertion.prototype\<close>, the own properties of each entry point \<^verbatim>\<open>expect\<close> and of its
  \<^verbatim>\<open>expect.not\<close>, and \<^verbatim>\<open>globalThis[ASYMMETRIC_MATCHERS_OBJECT]\<close>.
\<close>

record world =
  jest_matchers :: "string \<rightharpoonup> fluent_fn"
  assertion_prototype :: "string \<rightharpoonup> fluent_fn"
  expect_props :: "nat \<Rightarrow> (string \<rightharpoonup> (jsval list \<Rightarrow> custom_matcher))"
  expect_not_props :: "nat \<Rightarrow> (string \<rightharpoonup> (jsval list \<Rightarrow> custom_matcher))"
  asymmetric_matchers :: "string \<rightharpoonup> (jsval list \<Rightarrow> custom_matcher)"

text \<open>
  chai's \<^verbatim>\<open>utils.addMethod(ctx, name, method)\<close> registers \<open>method\<close> under \<open>name\<close> on
  \<open>ctx\<close>, and \<^verbatim>\<open>Object.defineProperty\<close> with a configurable, writable data descriptor
  sets the property to the descriptor's value.
\<close>

definition addMethod :: "(string \<rightharpoonup> 'f) \<Rightarrow> string \<Rightarrow> 'f \<Rightarrow> (string \<rightharpoonup> 'f)" where
  "addMethod ctx name method = ctx(name \<mapsto> method)"

definition defineProperty :: "(string \<rightharpoonup> 'f) \<Rightarrow> string \<Rightarrow> 'f \<Rightarrow> (string \<rightharpoonup> 'f)" where
  "defineProperty target name v = target(name \<mapsto> v)"

text \<open>The body of the \<^verbatim>\<open>forEach\<close> callback, for one entry of \<^verbatim>\<open>allMatchers\<close>.\<close>

definition install :: "env \<Rightarrow> nat \<Rightarrow> jsval \<Rightarrow> string \<times> matcher \<Rightarrow> world \<Rightarrow> world" where
  "install e expect utils' entry w =
     (case entry of (expectAssertionName, expectAssertion) \<Rightarrow>
        (let softWrapper = wrapSoft e utils' (expectWrapper e expect expectAssertion);
             w1 = w\<lparr>jest_matchers := addMethod (jest_matchers w) expectAssertionName softWrapper\<rparr>;
             w2 = w1\<lparr>assertion_prototype :=
                       addMethod (assertion_prototype w1) expectAssertionName softWrapper\<rparr>;
             customMatcher = CustomMatcher expectAssertionName expectAssertion expect False;
             w3 = w2\<lparr>expect_props := (expect_props w2)
                       (expect := defineProperty (expect_props w2 expect) expectAssertionName
                                    customMatcher)\<rparr>;
             w4 = w3\<lparr>expect_not_props := (expect_not_props w3)
                       (expect := defineProperty (expect_not_props w3 expect) expectAssertionName
                                    (CustomMatcher expectAssertionName expectAssertion expect True))\<rparr>
         in w4\<lparr>asymmetric_matchers :=
                  defineProperty (asymmetric_matchers w4) expectAssertionName customMatcher\<rparr>))"

text \<open>\<^verbatim>\<open>allMatchers = { ...matchers, toHaveBeenCalledBefore }\<close>.\<close>

definition allMatchers :: "(string \<times> matcher) list \<Rightarrow> (string \<times> matcher) list" where
  "allMatchers matchers =
     set_property (spread [] matchers) ''toHaveBeenCalledBefore'' toHaveBeenCalledBefore"

text \<open>
  The function that \<^verbatim>\<open>JestExtendPlugin(c, expect, matchers)\<close> returns, applied to the
  \<^verbatim>\<open>utils\<close> of chai, as a transformer of the surfaces.
\<close>

definition JestExtendPlugin ::
    "env \<Rightarrow> nat \<Rightarrow> (string \<times> matcher) list \<Rightarrow> jsval \<Rightarrow> world \<Rightarrow> world" where
  "JestExtendPlugin e expect matchers utils' w =
     fold (install e expect utils') (allMatchers matchers) w"

text \<open>
  \<^verbatim>\<open>expect.extend(expect, expects)\<close> as installed by \<^verbatim>\<open>JestExtend\<close>: chai's \<^verbatim>\<open>use\<close> runs the
  fresh plugin once, with its own \<^verbatim>\<open>utils\<close>.
\<close>

definition extend :: "env \<Rightarrow> nat \<Rightarrow> (string \<times> matcher) list \<Rightarrow> world \<Rightarrow> world" where
  "extend e expect expects w = JestExtendPlugin e expect expects (chaiUtils e) w"

section \<open>Sample inputs\<close>

text \<open>
  Concrete collaborators, matchers and assertions on which the theorems below are
  evaluated. The sample \<^verbatim>\<open>wrapSoft\<close> hands the function back, which is what the soft
  wrapper does for an assertion that is not soft.
\<close>

definition sample_utils :: matcher_utils where
  "sample_utils =
     \<lparr>matcherHint = (\<lambda>name. ''expect(received)'' @ name),
      printReceived = (\<lambda>v. ''<received>''),
      printExpected = (\<lambda>v. ''<expected>'')\<rparr>"

definition sample_env :: env where
  "sample_env =
     \<lparr>getState = (\<lambda>expect. []),
      getCustomEqualityTesters = Array [],
      getMatcherUtils = sample_utils,
      chaiUtils = Opaque 0,
      wrapSoft = (\<lambda>utils' fn. fn),
      getMatcherContext = inverseMatcherContext (\<lambda>expect. []) (Array []) sample_utils\<rparr>"

text \<open>\<^verbatim>\<open>expect(subject)\<close> and \<^verbatim>\<open>expect(subject).not\<close>.\<close>

definition sample_assertion :: "jsval \<Rightarrow> bool \<Rightarrow> assertion" where
  "sample_assertion subject negated =
     \<lparr>obj = subject,
      flags = (if negated then [''negate'' \<mapsto> Bool True] else Map.empty)\<rparr>"

text \<open>A matcher that accepts everything, and one whose verdict is a promise.\<close>

definition alwaysPass :: matcher where
  "alwaysPass this received rest =
     Sync \<lparr>pass = True, message = (\<lambda>_. ''always passes''),
           actual = received, expected = arg rest 0\<rparr>"

definition deferredVerdict :: "verdict promise \<Rightarrow> matcher" where
  "deferredVerdict p this received rest = Async p"

text \<open>A matcher whose verdict follows \<^verbatim>\<open>this.isNot\<close>.\<close>

definition passWhenNegated :: matcher where
  "passWhenNegated this received rest =
     Sync \<lparr>pass = truthy (isNot this), message = (\<lambda>_. ''passes when negated''),
           actual = received, expected = arg rest 0\<rparr>"

text \<open>The surfaces before anything is registered.\<close>

definition empty_world :: world where
  "empty_world =
     \<lparr>jest_matchers = Map.empty, assertion_prototype = Map.empty,
      expect_props = (\<lambda>expect. Map.empty), expect_not_props = (\<lambda>expect. Map.empty),
      asymmetric_matchers = Map.empty\<rparr>"

section \<open>The call-order verdict\<close>

lemma Min_insert_min:
  "finite S \<Longrightarrow> Min (insert (min x a) S) = Min (insert a (insert x S))" for x a :: int
  by (cases "S = {}") (simp_all add: min.commute min.assoc)

lemma fold_lowest_Finite:
  "fold (\<lambda>x lowest. if num_less (Finite x) lowest then Finite x else lowest) xs (Finite a)
     = Finite (Min (insert a (set xs)))"
proof (induction xs arbitrary: a)
  case Nil
  show ?case by simp
next
  case (Cons x xs)
  have "fold (\<lambda>x lowest. if num_less (Finite x) lowest then Finite x else lowest) (x # xs) (Finite a)
      = fold (\<lambda>x lowest. if num_less (Finite x) lowest then Finite x else lowest) xs
          (Finite (min x a))"
    by (simp add: min_def)
  also have "\<dots> = Finite (Min (insert (min x a) (set xs)))"
    by (rule Cons.IH)
  also have "\<dots> = Finite (Min (insert a (set (x # xs))))"
    by (simp add: Min_insert_min)
  finally show ?case .
qed

lemma Math_min_nonempty: "xs \<noteq> [] \<Longrightarrow> Math_min xs = Finite (Min (set xs))"
  by (cases xs) (simp_all add: Math_min_def fold_lowest_Finite)

lemma Math_min_empty: "Math_min [] = Infinity"
  by (simp add: Math_min_def)

text \<open>
  Claim C2. For \<^verbatim>\<open>toHaveBeenCalledBefore\<close> on two mocks with invocation-order lists \<open>a\<close>
  and \<open>b\<close> and the boolean flag \<open>failIfNoSecondInvocation\<close>, the matcher returns a
  synchronous verdict whose \<open>pass\<close> is false when \<open>a\<close> is empty, is the negation of the
  flag when \<open>a\<close> is not empty and \<open>b\<close> is, and otherwise says whether the least element
  of \<open>a\<close> is below the least element of \<open>b\<close>.
\<close>

theorem toHaveBeenCalledBefore_pass:
  "\<exists>v. toHaveBeenCalledBefore st (MockFn a) (MockFn b # Bool failIfNoSecondInvocation # others)
          = Sync v \<and>
        pass v = (if a = [] then False
                  else if b = [] then \<not> failIfNoSecondInvocation
                  else Min (set a) < Min (set b))"
  by (simp add: toHaveBeenCalledBefore_def arg_def predicate_def Math_min_nonempty Let_def)

text \<open>The three cases the claim names: \<open>[1,5]\<close> against \<open>[3]\<close>, \<open>[2]\<close> against \<open>[1]\<close>,
  and \<open>[1]\<close> against \<open>[]\<close> with the flag off.\<close>

theorem toHaveBeenCalledBefore_pass_witness:
  "(\<exists>v. toHaveBeenCalledBefore (fst (getMatcherState sample_env (sample_assertion (MockFn [1, 5]) False) 0))
          (MockFn [1, 5]) [MockFn [3], Bool True] = Sync v \<and> pass v)
   \<and> (\<exists>v. toHaveBeenCalledBefore (fst (getMatcherState sample_env (sample_assertion (MockFn [2]) False) 0))
          (MockFn [2]) [MockFn [1], Bool True] = Sync v \<and> \<not> pass v)
   \<and> (\<exists>v. toHaveBeenCalledBefore (fst (getMatcherState sample_env (sample_assertion (MockFn [1]) False) 0))
          (MockFn [1]) [MockFn [], Bool False] = Sync v \<and> pass v)"
  using toHaveBeenCalledBefore_pass
          [of "fst (getMatcherState sample_env (sample_assertion (MockFn [1, 5]) False) 0)"
              "[1, 5]" "[3]" True "[]"]
        toHaveBeenCalledBefore_pass
          [of "fst (getMatcherState sample_env (sample_assertion (MockFn [2]) False) 0)"
              "[2]" "[1]" True "[]"]
        toHaveBeenCalledBefore_pass
          [of "fst (getMatcherState sample_env (sample_assertion (MockFn [1]) False) 0)"
              "[1]" "[]" False "[]"]
  by simp

section \<open>The decision of the fluent adapter\<close>

text \<open>
  Claim C1. When the matcher returns a synchronous verdict for the state and subject that
  \<^verbatim>\<open>getMatcherState\<close> reads off the assertion, the fluent adapter throws the structured
  failure carrying \<open>message()\<close>, \<open>actual\<close> and \<open>expected\<close> exactly when
  \<open>(pass && isNot) || (!pass && !isNot)\<close>, with \<open>isNot\<close> the \<^verbatim>\<open>negate\<close> flag of the
  assertion at the call; otherwise it returns without a value.
\<close>

theorem expectWrapper_sync_decision:
  assumes "expectAssertion (fst (getMatcherState e this expect)) (obj this) args = Sync v"
  shows "expectWrapper e expect expectAssertion this args =
     (if (pass v \<and> truthy (flag this ''negate'')) \<or> (\<not> pass v \<and> \<not> truthy (flag this ''negate''))
      then Inl (JestExtendError (message v ()) (actual v) (expected v))
      else Inr Void)"
  using assms by (simp add: expectWrapper_def getMatcherState_def Let_def)

theorem expectWrapper_sync_decision_witness:
  "expectWrapper sample_env 0 alwaysPass (sample_assertion (Number 1) True) [Number 2]
     = Inl (JestExtendError ''always passes'' (Number 1) (Number 2))
   \<and> expectWrapper sample_env 0 alwaysPass (sample_assertion (Number 1) False) [Number 2]
     = Inr Void"
proof -
  have verdict: "alwaysPass (fst (getMatcherState sample_env (sample_assertion (Number 1) n) 0))
      (obj (sample_assertion (Number 1) n)) [Number 2]
    = Sync \<lparr>pass = True, message = (\<lambda>_. ''always passes''),
            actual = Number 1, expected = Number 2\<rparr>" for n
    by (simp add: alwaysPass_def sample_assertion_def arg_def)
  show ?thesis
    using expectWrapper_sync_decision
            [where expectAssertion = alwaysPass and e = sample_env and expect = 0
               and this = "sample_assertion (Number 1) True", OF verdict]
          expectWrapper_sync_decision
            [where expectAssertion = alwaysPass and e = sample_env and expect = 0
               and this = "sample_assertion (Number 1) False", OF verdict]
    by (simp add: flag_def sample_assertion_def)
qed

text \<open>
  Claim C8. When the matcher returns a promise of a verdict, the fluent adapter does not
  throw: it returns a promise. That promise stays pending while the verdict is pending;
  once the verdict is fulfilled it is rejected with the structured failure exactly when
  \<open>(pass && isNot) || (!pass && !isNot)\<close>, with \<open>isNot\<close> as read at the call, and is
  fulfilled with no value otherwise; a rejected verdict promise rejects it with the same
  reason.
\<close>

theorem expectWrapper_deferred_decision:
  assumes "expectAssertion (fst (getMatcherState e this expect)) (obj this) args = Async p"
  shows "expectWrapper e expect expectAssertion this args =
     Inr (Deferred (case p of
        Fulfilled v \<Rightarrow>
          if (pass v \<and> truthy (flag this ''negate'')) \<or> (\<not> pass v \<and> \<not> truthy (flag this ''negate''))
          then Rejected (JestExtendError (message v ()) (actual v) (expected v))
          else Fulfilled ()
      | Rejected reason \<Rightarrow> Rejected reason
      | Pending \<Rightarrow> Pending))"
  using assms by (cases p) (simp_all add: expectWrapper_def getMatcherState_def Let_def)

theorem expectWrapper_deferred_decision_witness:
  "expectWrapper sample_env 0
      (deferredVerdict (Fulfilled \<lparr>pass = False, message = (\<lambda>_. ''late''),
                                   actual = Number 1, expected = Number 2\<rparr>))
      (sample_assertion (Number 1) False) []
     = Inr (Deferred (Rejected (JestExtendError ''late'' (Number 1) (Number 2))))
   \<and> expectWrapper sample_env 0
      (deferredVerdict (Fulfilled \<lparr>pass = False, message = (\<lambda>_. ''late''),
                                   actual = Number 1, expected = Number 2\<rparr>))
      (sample_assertion (Number 1) True) []
     = Inr (Deferred (Fulfilled ()))
   \<and> expectWrapper sample_env 0 (deferredVerdict Pending) (sample_assertion (Number 1) False) []
     = Inr (Deferred Pending)"
proof -
  have deferred: "deferredVerdict p (fst (getMatcherState sample_env (sample_assertion (Number 1) n) 0))
      (obj (sample_assertion (Number 1) n)) [] = Async p" for p n
    by (simp add: deferredVerdict_def)
  show ?thesis
    using expectWrapper_deferred_decision
            [where expectAssertion = "deferredVerdict (Fulfilled \<lparr>pass = False,
                 message = (\<lambda>_. ''late''), actual = Number 1, expected = Number 2\<rparr>)"
               and e = sample_env and expect = 0
               and this = "sample_assertion (Number 1) False", OF deferred]
          expectWrapper_deferred_decision
            [where expectAssertion = "deferredVerdict (Fulfilled \<lparr>pass = False,
                 message = (\<lambda>_. ''late''), actual = Number 1, expected = Number 2\<rparr>)"
               and e = sample_env and expect = 0
               and this = "sample_assertion (Number 1) True", OF deferred]
          expectWrapper_deferred_decision
            [where expectAssertion = "deferredVerdict Pending"
               and e = sample_env and expect = 0
               and this = "sample_assertion (Number 1) False", OF deferred]
    by (simp add: flag_def sample_assertion_def)
qed

section \<open>What registration writes\<close>

lemma map_of_set_property: "map_of (set_property kvs k v) = (map_of kvs)(k \<mapsto> v)"
  by (induction kvs k v rule: set_property.induct) (auto simp: fun_eq_iff)

lemma keys_set_property:
  "map fst (set_property kvs k v) =
     (if k \<in> fst ` set kvs then map fst kvs else map fst kvs @ [k])"
  by (induction kvs k v rule: set_property.induct) (auto simp: image_iff)

lemma distinct_set_property:
  "distinct (map fst kvs) \<Longrightarrow> distinct (map fst (set_property kvs k v))"
  by (simp add: keys_set_property)

lemma distinct_spread:
  "distinct (map fst target) \<Longrightarrow> distinct (map fst (spread target src))"
  unfolding spread_def
  by (induction src arbitrary: target) (auto simp: distinct_set_property)

lemma map_of_spread: "map_of (spread target src) = map_of target ++ map_of (rev src)"
  unfolding spread_def
proof (induction src arbitrary: target)
  case Nil
  show ?case by simp
next
  case (Cons p src)
  obtain k v where p: "p = (k, v)" by (cases p)
  show ?case
    by (simp add: p Cons.IH map_of_set_property fun_eq_iff map_add_def split: option.splits)
qed

lemma distinct_allMatchers: "distinct (map fst (allMatchers matchers))"
  by (simp add: allMatchers_def distinct_set_property distinct_spread)

lemma map_of_allMatchers:
  "map_of (allMatchers matchers)
     = (map_of (rev matchers))(''toHaveBeenCalledBefore'' \<mapsto> toHaveBeenCalledBefore)"
  by (simp add: allMatchers_def map_of_set_property map_of_spread)

lemma keys_allMatchers:
  "fst ` set (allMatchers matchers) = insert ''toHaveBeenCalledBefore'' (fst ` set matchers)"
proof -
  have "fst ` set (allMatchers matchers) = dom (map_of (allMatchers matchers))"
    by (simp add: dom_map_of_conv_image_fst)
  also have "\<dots> = insert ''toHaveBeenCalledBefore'' (dom (map_of (rev matchers)))"
    by (simp add: map_of_allMatchers)
  also have "dom (map_of (rev matchers)) = fst ` set matchers"
    by (simp add: dom_map_of_conv_image_fst)
  finally show ?thesis .
qed

lemma map_of_rev_distinct: "distinct (map fst es) \<Longrightarrow> map_of (rev es) = map_of es"
proof (induction es)
  case Nil
  show ?case by simp
next
  case (Cons p es)
  obtain k v where p: "p = (k, v)" by (cases p)
  from Cons.prems p have fresh: "map_of es k = None"
    by (simp add: map_of_eq_None_iff)
  from Cons.prems have "map_of (rev es) = map_of es"
    by (simp add: Cons.IH)
  with fresh show ?case
    by (auto simp: p fun_eq_iff map_add_def split: option.splits)
qed

lemma fold_writes:
  assumes step: "\<And>n M w. proj (step (n, M) w) = (proj w)(n \<mapsto> g n M)"
  shows "proj (fold step es w) k =
           (case map_of (rev es) k of Some M \<Rightarrow> Some (g k M) | None \<Rightarrow> proj w k)"
proof (induction es arbitrary: w)
  case Nil
  show ?case by simp
next
  case (Cons p es)
  obtain n M where p: "p = (n, M)" by (cases p)
  show ?case
    by (simp add: p Cons.IH step map_add_def split: option.splits)
qed

lemma install_jest_matchers:
  "jest_matchers (install e x u (n, M) w) = (jest_matchers w)(n \<mapsto> wrapSoft e u (expectWrapper e x M))"
  by (simp add: install_def Let_def addMethod_def)

lemma install_assertion_prototype:
  "assertion_prototype (install e x u (n, M) w)
     = (assertion_prototype w)(n \<mapsto> wrapSoft e u (expectWrapper e x M))"
  by (simp add: install_def Let_def addMethod_def)

lemma install_asymmetric_matchers:
  "asymmetric_matchers (install e x u (n, M) w)
     = (asymmetric_matchers w)(n \<mapsto> CustomMatcher n M x False)"
  by (simp add: install_def Let_def defineProperty_def)

lemma install_expect_props:
  "expect_props (install e x u (n, M) w) x = (expect_props w x)(n \<mapsto> CustomMatcher n M x False)"
  by (simp add: install_def Let_def defineProperty_def)

lemma install_expect_not_props:
  "expect_not_props (install e x u (n, M) w) x
     = (expect_not_props w x)(n \<mapsto> CustomMatcher n M x True)"
  by (simp add: install_def Let_def defineProperty_def)

lemma extend_jest_matchers:
  "jest_matchers (extend e x ms w) k =
     (case map_of (allMatchers ms) k of
        Some M \<Rightarrow> Some (wrapSoft e (chaiUtils e) (expectWrapper e x M))
      | None \<Rightarrow> jest_matchers w k)"
  unfolding extend_def JestExtendPlugin_def
  using fold_writes [where proj = jest_matchers and step = "install e x (chaiUtils e)"
      and g = "\<lambda>n M. wrapSoft e (chaiUtils e) (expectWrapper e x M)", OF install_jest_matchers]
  by (simp add: map_of_rev_distinct distinct_allMatchers)

lemma extend_expect_props:
  "expect_props (extend e x ms w) x k =
     (case map_of (allMatchers ms) k of
        Some M \<Rightarrow> Some (CustomMatcher k M x False)
      | None \<Rightarrow> expect_props w x k)"
  unfolding extend_def JestExtendPlugin_def
  using fold_writes [where proj = "\<lambda>w. expect_props w x" and step = "install e x (chaiUtils e)"
      and g = "\<lambda>n M. CustomMatcher n M x False", OF install_expect_props]
  by (simp add: map_of_rev_distinct distinct_allMatchers)

lemma extend_assertion_prototype:
  "assertion_prototype (extend e x ms w) k =
     (case map_of (allMatchers ms) k of
        Some M \<Rightarrow> Some (wrapSoft e (chaiUtils e) (expectWrapper e x M))
      | None \<Rightarrow> assertion_prototype w k)"
  unfolding extend_def JestExtendPlugin_def
  using fold_writes [where proj = assertion_prototype and step = "install e x (chaiUtils e)"
      and g = "\<lambda>n M. wrapSoft e (chaiUtils e) (expectWrapper e x M)",
      OF install_assertion_prototype]
  by (simp add: map_of_rev_distinct distinct_allMatchers)

lemma extend_asymmetric_matchers:
  "asymmetric_matchers (extend e x ms w) k =
     (case map_of (allMatchers ms) k of
        Some M \<Rightarrow> Some (CustomMatcher k M x False)
      | None \<Rightarrow> asymmetric_matchers w k)"
  unfolding extend_def JestExtendPlugin_def
  using fold_writes [where proj = asymmetric_matchers and step = "install e x (chaiUtils e)"
      and g = "\<lambda>n M. CustomMatcher n M x False", OF install_asymmetric_matchers]
  by (simp add: map_of_rev_distinct distinct_allMatchers)

lemma extend_expect_not_props:
  "expect_not_props (extend e x ms w) x k =
     (case map_of (allMatchers ms) k of
        Some M \<Rightarrow> Some (CustomMatcher k M x True)
      | None \<Rightarrow> expect_not_props w x k)"
  unfolding extend_def JestExtendPlugin_def
  using fold_writes [where proj = "\<lambda>w. expect_not_props w x" and step = "install e x (chaiUtils e)"
      and g = "\<lambda>n M. CustomMatcher n M x True", OF install_expect_not_props]
  by (simp add: map_of_rev_distinct distinct_allMatchers)

lemma map_of_allMatchers_entry:
  "(n, M) \<in> set (allMatchers ms) \<Longrightarrow> map_of (allMatchers ms) n = Some M"
  by (simp add: distinct_allMatchers)

lemma map_of_allMatchers_None:
  "n \<notin> fst ` set (allMatchers ms) \<Longrightarrow> map_of (allMatchers ms) n = None"
  by (simp add: map_of_eq_None_iff)

lemma dom_case_map_of:
  "{k. (case map_of es k of Some M \<Rightarrow> Some (g k M) | None \<Rightarrow> m k) \<noteq> None}
     = dom m \<union> fst ` set es"
proof (rule set_eqI)
  fix k
  show "k \<in> {k. (case map_of es k of Some M \<Rightarrow> Some (g k M) | None \<Rightarrow> m k) \<noteq> None}
        \<longleftrightarrow> k \<in> dom m \<union> fst ` set es"
  proof (cases "map_of es k")
    case None
    then have "k \<notin> fst ` set es" by (simp add: map_of_eq_None_iff)
    with None show ?thesis by (simp add: dom_def)
  next
    case (Some M)
    then have "(k, M) \<in> set es" by (rule map_of_SomeD)
    then have "k \<in> fst ` set es" by (rule image_eqI [rotated]) simp
    with Some show ?thesis by simp
  qed
qed

text \<open>
  Claim C7. After \<^verbatim>\<open>extend\<close>, for every entry \<open>(n, M)\<close> of the merged mapping, the
  method under \<open>n\<close> on the global matcher registry and on the assertion prototype is
  the same function \<^verbatim>\<open>wrapSoft(utils, expectWrapper)\<close> for \<open>M\<close>; under every other
  name both surfaces are left as they were, so no adapter without the soft wrapper is
  written.
\<close>

theorem extend_installs_soft_wrapped:
  "((n, M) \<in> set (allMatchers ms) \<longrightarrow>
       jest_matchers (extend e x ms w) n = Some (wrapSoft e (chaiUtils e) (expectWrapper e x M))
     \<and> assertion_prototype (extend e x ms w) n
         = Some (wrapSoft e (chaiUtils e) (expectWrapper e x M)))
   \<and> (n \<notin> fst ` set (allMatchers ms) \<longrightarrow>
       jest_matchers (extend e x ms w) n = jest_matchers w n
     \<and> assertion_prototype (extend e x ms w) n = assertion_prototype w n)"
  by (simp add: extend_jest_matchers extend_assertion_prototype map_of_allMatchers_entry
        map_of_allMatchers_None)

theorem extend_installs_soft_wrapped_witness:
  "(''toBeAnything'', alwaysPass) \<in> set (allMatchers [(''toBeAnything'', alwaysPass)])
   \<and> jest_matchers (extend sample_env 0 [(''toBeAnything'', alwaysPass)] empty_world)
        ''toBeAnything''
      = Some (wrapSoft sample_env (chaiUtils sample_env) (expectWrapper sample_env 0 alwaysPass))
   \<and> assertion_prototype (extend sample_env 0 [(''toBeAnything'', alwaysPass)] empty_world)
        ''toBeAnything''
      = Some (wrapSoft sample_env (chaiUtils sample_env) (expectWrapper sample_env 0 alwaysPass))
   \<and> ''toEqual'' \<notin> fst ` set (allMatchers [(''toBeAnything'', alwaysPass)])
   \<and> jest_matchers (extend sample_env 0 [(''toBeAnything'', alwaysPass)] empty_world)
        ''toEqual'' = None"
proof -
  have entry: "(''toBeAnything'', alwaysPass) \<in> set (allMatchers [(''toBeAnything'', alwaysPass)])"
    by (simp add: allMatchers_def spread_def)
  have other: "''toEqual'' \<notin> fst ` set (allMatchers [(''toBeAnything'', alwaysPass)])"
    by (simp add: allMatchers_def spread_def)
  show ?thesis
    using entry other
      extend_installs_soft_wrapped [of "''toBeAnything''" alwaysPass "[(''toBeAnything'', alwaysPass)]"
            sample_env 0 empty_world]
      extend_installs_soft_wrapped [of "''toEqual''" alwaysPass "[(''toBeAnything'', alwaysPass)]"
            sample_env 0 empty_world]
    by (simp add: empty_world_def)
qed

text \<open>
  Claim C4. After \<^verbatim>\<open>extend\<close>, every name of the merged mapping is present on the
  assertion prototype, in the global matcher registry and in the global asymmetric
  registry, and each of the three gains exactly the names of the merged mapping: none
  of them receives a name that another misses.
\<close>

theorem extend_registries_agree:
  "(n \<in> fst ` set (allMatchers ms) \<longrightarrow>
       n \<in> dom (assertion_prototype (extend e x ms w))
     \<and> n \<in> dom (jest_matchers (extend e x ms w))
     \<and> n \<in> dom (asymmetric_matchers (extend e x ms w)))
   \<and> dom (assertion_prototype (extend e x ms w))
       = dom (assertion_prototype w) \<union> fst ` set (allMatchers ms)
   \<and> dom (jest_matchers (extend e x ms w))
       = dom (jest_matchers w) \<union> fst ` set (allMatchers ms)
   \<and> dom (asymmetric_matchers (extend e x ms w))
       = dom (asymmetric_matchers w) \<union> fst ` set (allMatchers ms)"
proof -
  have a: "dom (assertion_prototype (extend e x ms w))
       = dom (assertion_prototype w) \<union> fst ` set (allMatchers ms)"
    unfolding dom_def [of "assertion_prototype (extend e x ms w)"] extend_assertion_prototype
    by (rule dom_case_map_of)
  have b: "dom (jest_matchers (extend e x ms w))
       = dom (jest_matchers w) \<union> fst ` set (allMatchers ms)"
    unfolding dom_def [of "jest_matchers (extend e x ms w)"] extend_jest_matchers
    by (rule dom_case_map_of)
  have c: "dom (asymmetric_matchers (extend e x ms w))
       = dom (asymmetric_matchers w) \<union> fst ` set (allMatchers ms)"
    unfolding dom_def [of "asymmetric_matchers (extend e x ms w)"] extend_asymmetric_matchers
    by (rule dom_case_map_of)
  show ?thesis
    unfolding a b c by simp
qed

theorem extend_registries_agree_witness:
  "''toBeAnything'' \<in> fst ` set (allMatchers [(''toBeAnything'', alwaysPass)])
   \<and> ''toBeAnything'' \<in> dom (assertion_prototype
         (extend sample_env 0 [(''toBeAnything'', alwaysPass)] empty_world))
   \<and> ''toBeAnything'' \<in> dom (jest_matchers
         (extend sample_env 0 [(''toBeAnything'', alwaysPass)] empty_world))
   \<and> ''toBeAnything'' \<in> dom (asymmetric_matchers
         (extend sample_env 0 [(''toBeAnything'', alwaysPass)] empty_world))"
proof -
  have name: "''toBeAnything'' \<in> fst ` set (allMatchers [(''toBeAnything'', alwaysPass)])"
    by (simp add: allMatchers_def spread_def)
  show ?thesis
    using name
      extend_registries_agree [of "''toBeAnything''" "[(''toBeAnything'', alwaysPass)]" sample_env 0 empty_world]
    by simp
qed

text \<open>
  Claim C3, as amended. The merged mapping is \<^verbatim>\<open>{ ...matchers, toHaveBeenCalledBefore }\<close>:
  the built-in is written last. Whatever the matcher map holds under the name
  \<^verbatim>\<open>toHaveBeenCalledBefore\<close>, what \<^verbatim>\<open>extend\<close> installs under that name on the two
  fluent surfaces, on the entry point, on its \<^verbatim>\<open>not\<close> and in the asymmetric registry is
  built from the built-in matcher.
\<close>

theorem extend_builtin_shadows_user_entry:
  "jest_matchers (extend e x ms w) ''toHaveBeenCalledBefore''
     = Some (wrapSoft e (chaiUtils e) (expectWrapper e x toHaveBeenCalledBefore))
   \<and> assertion_prototype (extend e x ms w) ''toHaveBeenCalledBefore''
     = Some (wrapSoft e (chaiUtils e) (expectWrapper e x toHaveBeenCalledBefore))
   \<and> expect_props (extend e x ms w) x ''toHaveBeenCalledBefore''
     = Some (CustomMatcher ''toHaveBeenCalledBefore'' toHaveBeenCalledBefore x False)
   \<and> expect_not_props (extend e x ms w) x ''toHaveBeenCalledBefore''
     = Some (CustomMatcher ''toHaveBeenCalledBefore'' toHaveBeenCalledBefore x True)
   \<and> asymmetric_matchers (extend e x ms w) ''toHaveBeenCalledBefore''
     = Some (CustomMatcher ''toHaveBeenCalledBefore'' toHaveBeenCalledBefore x False)"
  by (simp add: extend_jest_matchers extend_assertion_prototype extend_expect_props
        extend_expect_not_props extend_asymmetric_matchers map_of_allMatchers)

text \<open>
  Claim C3, as stated, fails. A matcher map whose entry \<^verbatim>\<open>toHaveBeenCalledBefore\<close>
  accepts everything is registered; the asymmetric matcher then installed under that
  name rejects a value that is not a mock, where one built from the user's entry accepts
  it, and the installed fluent method throws where the wrapped user entry returns.
\<close>

theorem extend_user_entry_not_installed:
  "asymmetricMatch sample_env
      (the (asymmetric_matchers
              (extend sample_env 0 [(''toHaveBeenCalledBefore'', alwaysPass)] empty_world)
              ''toHaveBeenCalledBefore'') [Null]) Null = Bool False
   \<and> asymmetricMatch sample_env
      (CustomMatcher ''toHaveBeenCalledBefore'' alwaysPass 0 False [Null]) Null = Bool True
   \<and> the (jest_matchers
              (extend sample_env 0 [(''toHaveBeenCalledBefore'', alwaysPass)] empty_world)
              ''toHaveBeenCalledBefore'') (sample_assertion Null False) [Null] \<noteq> Inr Void
   \<and> wrapSoft sample_env (chaiUtils sample_env) (expectWrapper sample_env 0 alwaysPass)
        (sample_assertion Null False) [Null] = Inr Void"
  by (simp add: extend_jest_matchers extend_asymmetric_matchers map_of_allMatchers
        asymmetricMatch_def CustomMatcher_def sample_env_def toHaveBeenCalledBefore_def
        alwaysPass_def expectWrapper_def getMatcherState_def sample_assertion_def flag_def
        Let_def arg_def)

section \<open>The messages of the call-order matcher\<close>

text \<open>
  Claim C6. When \<open>actual\<close> is not a mock or spy, \<^verbatim>\<open>toHaveBeenCalledBefore\<close> returns a
  verdict that does not pass and whose message contains
  \<^verbatim>\<open>Received value must be a mock or spy function\<close>; when \<open>actual\<close> is one and
  \<open>expected\<close> (the first further argument) is not, the verdict does not pass and its
  message contains \<^verbatim>\<open>Expected value must be a mock or spy function\<close>.
\<close>

theorem toHaveBeenCalledBefore_invalid_side:
  "(\<not> isJestMockOrSpy actual' \<longrightarrow>
      (\<exists>v. toHaveBeenCalledBefore st actual' rest = Sync v \<and> \<not> pass v \<and>
           sublist ''Received value must be a mock or spy function'' (message v ())))
   \<and> (isJestMockOrSpy actual' \<and> \<not> isJestMockOrSpy (arg rest 0) \<longrightarrow>
      (\<exists>v. toHaveBeenCalledBefore st actual' rest = Sync v \<and> \<not> pass v \<and>
           sublist ''Expected value must be a mock or spy function'' (message v ())))"
proof -
  have received: "sublist ''Received value must be a mock or spy function''
      (hint @ ''\<newline>\<newline>'' @ ''Received value must be a mock or spy function\<newline>\<newline>'' @ tail)"
    for hint tail :: string
    using sublist_appendI [of "''Received value must be a mock or spy function''"
        "hint @ ''\<newline>\<newline>''" "''\<newline>\<newline>'' @ tail"]
    by simp
  have expected: "sublist ''Expected value must be a mock or spy function''
      (hint @ ''\<newline>\<newline>'' @ ''Expected value must be a mock or spy function\<newline>\<newline>'' @ tail)"
    for hint tail :: string
    using sublist_appendI [of "''Expected value must be a mock or spy function''"
        "hint @ ''\<newline>\<newline>''" "''\<newline>\<newline>'' @ tail"]
    by simp
  show ?thesis
    using received expected
    by (simp add: toHaveBeenCalledBefore_def Let_def)
qed

theorem toHaveBeenCalledBefore_invalid_side_witness:
  "\<not> isJestMockOrSpy (PlainObject [])
   \<and> (\<exists>v. toHaveBeenCalledBefore (fst (getMatcherState sample_env (sample_assertion (PlainObject []) False) 0))
          (PlainObject []) [MockFn [1]] = Sync v \<and> \<not> pass v \<and>
          sublist ''Received value must be a mock or spy function'' (message v ()))
   \<and> isJestMockOrSpy (MockFn [1]) \<and> \<not> isJestMockOrSpy (arg [Number 7] 0)
   \<and> (\<exists>v. toHaveBeenCalledBefore (fst (getMatcherState sample_env (sample_assertion (MockFn [1]) False) 0))
          (MockFn [1]) [Number 7] = Sync v \<and> \<not> pass v \<and>
          sublist ''Expected value must be a mock or spy function'' (message v ()))"
  using toHaveBeenCalledBefore_invalid_side
          [of "PlainObject []"
              "fst (getMatcherState sample_env (sample_assertion (PlainObject []) False) 0)"
              "[MockFn [1]]"]
        toHaveBeenCalledBefore_invalid_side
          [of "MockFn [1]"
              "fst (getMatcherState sample_env (sample_assertion (MockFn [1]) False) 0)"
              "[Number 7]"]
  by (simp add: arg_def)

lemma sublist_nested:
  "sublist pe (h @ n2 @ s1 @ l1 @ pe @ n1 @ l2 @ pr)"
  "sublist pr (h @ n2 @ s1 @ l1 @ pe @ n1 @ l2 @ pr)"
proof -
  show "sublist pe (h @ n2 @ s1 @ l1 @ pe @ n1 @ l2 @ pr)"
    using sublist_appendI [of pe "h @ n2 @ s1 @ l1" "n1 @ l2 @ pr"] by simp
  show "sublist pr (h @ n2 @ s1 @ l1 @ pe @ n1 @ l2 @ pr)"
    using sublist_append_leftI [of pr "h @ n2 @ s1 @ l1 @ pe @ n1 @ l2"] by simp
qed

lemma sublist_either:
  "sublist pe (if c then h @ n2 @ s1 @ l1 @ pe @ n1 @ l2 @ pr
               else h' @ n2' @ s1' @ l1' @ pe @ n1' @ l2' @ pr)
   \<and> sublist pr (if c then h @ n2 @ s1 @ l1 @ pe @ n1 @ l2 @ pr
                 else h' @ n2' @ s1' @ l1' @ pe @ n1' @ l2' @ pr)"
  by (cases c) (simp_all only: if_True if_False sublist_nested simp_thms)

lemma toHaveBeenCalledBefore_valid:
  assumes "arg rest 0 = MockFn b"
  shows "\<exists>v. toHaveBeenCalledBefore st (MockFn a) rest = Sync v
     \<and> pass v = predicate a b (if arg rest 1 = Undefined then Bool True else arg rest 1)
     \<and> message v () =
          (if predicate a b (if arg rest 1 = Undefined then Bool True else arg rest 1) then
             matcherHint (utils st) ''.not.toHaveBeenCalledBefore'' @ ''\<newline>\<newline>''
             @ ''Expected first mock to not have been called before second mock, but it was.\<newline>\<newline>''
             @ ''First mock call order: ''
             @ printExpected (utils st) (Array (map Number a)) @ ''\<newline>''
             @ ''Second mock call order: ''
             @ printReceived (utils st) (Array (map Number b))
           else
             matcherHint (utils st) ''.toHaveBeenCalledBefore'' @ ''\<newline>\<newline>''
             @ ''Expected first mock to have been called before second mock, but it was not.\<newline>\<newline>''
             @ ''First mock call order: ''
             @ printExpected (utils st) (Array (map Number a)) @ ''\<newline>''
             @ ''Second mock call order: ''
             @ printReceived (utils st) (Array (map Number b)))
     \<and> actual v = Undefined \<and> expected v = Undefined"
  unfolding toHaveBeenCalledBefore_def Let_def using assms by simp

text \<open>
  Claim C9. For \<^verbatim>\<open>toHaveBeenCalledBefore\<close> on two mocks, the message of the verdict
  contains the rendering of both invocation-order lists. When the fluent adapter throws
  on such a call, the message it carries is the \<^verbatim>\<open>not have been called before\<close> wording,
  under the hint \<^verbatim>\<open>.not.toHaveBeenCalledBefore\<close>, exactly when the assertion was negated,
  and the \<^verbatim>\<open>have been called before ... but it was not\<close> wording, under the hint
  \<^verbatim>\<open>.toHaveBeenCalledBefore\<close>, exactly when it was not.
\<close>

theorem toHaveBeenCalledBefore_failure_wording:
  assumes subject: "obj this = MockFn a"
      and other: "arg args 0 = MockFn b"
  shows "(\<exists>v. toHaveBeenCalledBefore (fst (getMatcherState e this x)) (obj this) args = Sync v
            \<and> sublist (printExpected (getMatcherUtils e) (Array (map Number a))) (message v ())
            \<and> sublist (printReceived (getMatcherUtils e) (Array (map Number b))) (message v ()))
       \<and> (expectWrapper e x toHaveBeenCalledBefore this args = Inl failure \<longrightarrow>
            failure = JestExtendError
              (if truthy (flag this ''negate'') then
                 matcherHint (getMatcherUtils e) ''.not.toHaveBeenCalledBefore'' @ ''\<newline>\<newline>''
                 @ ''Expected first mock to not have been called before second mock, but it was.\<newline>\<newline>''
                 @ ''First mock call order: ''
                 @ printExpected (getMatcherUtils e) (Array (map Number a)) @ ''\<newline>''
                 @ ''Second mock call order: ''
                 @ printReceived (getMatcherUtils e) (Array (map Number b))
               else
                 matcherHint (getMatcherUtils e) ''.toHaveBeenCalledBefore'' @ ''\<newline>\<newline>''
                 @ ''Expected first mock to have been called before second mock, but it was not.\<newline>\<newline>''
                 @ ''First mock call order: ''
                 @ printExpected (getMatcherUtils e) (Array (map Number a)) @ ''\<newline>''
                 @ ''Second mock call order: ''
                 @ printReceived (getMatcherUtils e) (Array (map Number b)))
              Undefined Undefined)"
proof
  have u: "utils (fst (getMatcherState e this x)) = getMatcherUtils e"
    by (simp add: getMatcherState_def Let_def)
  show "\<exists>v. toHaveBeenCalledBefore (fst (getMatcherState e this x)) (obj this) args = Sync v
            \<and> sublist (printExpected (getMatcherUtils e) (Array (map Number a))) (message v ())
            \<and> sublist (printReceived (getMatcherUtils e) (Array (map Number b))) (message v ())"
  proof -
    obtain v where v: "toHaveBeenCalledBefore (fst (getMatcherState e this x)) (MockFn a) args = Sync v"
      and m: "message v () =
          (if predicate a b (if arg args 1 = Undefined then Bool True else arg args 1) then
             matcherHint (getMatcherUtils e) ''.not.toHaveBeenCalledBefore'' @ ''\<newline>\<newline>''
             @ ''Expected first mock to not have been called before second mock, but it was.\<newline>\<newline>''
             @ ''First mock call order: ''
             @ printExpected (getMatcherUtils e) (Array (map Number a)) @ ''\<newline>''
             @ ''Second mock call order: ''
             @ printReceived (getMatcherUtils e) (Array (map Number b))
           else
             matcherHint (getMatcherUtils e) ''.toHaveBeenCalledBefore'' @ ''\<newline>\<newline>''
             @ ''Expected first mock to have been called before second mock, but it was not.\<newline>\<newline>''
             @ ''First mock call order: ''
             @ printExpected (getMatcherUtils e) (Array (map Number a)) @ ''\<newline>''
             @ ''Second mock call order: ''
             @ printReceived (getMatcherUtils e) (Array (map Number b)))"
      using toHaveBeenCalledBefore_valid [OF other, of "fst (getMatcherState e this x)" a]
      unfolding u by blast
    show ?thesis
      unfolding subject
      by (rule exI [of _ v], rule conjI, rule v, unfold m, rule sublist_either)
  qed
  show "expectWrapper e x toHaveBeenCalledBefore this args = Inl failure \<longrightarrow>
            failure = JestExtendError
              (if truthy (flag this ''negate'') then
                 matcherHint (getMatcherUtils e) ''.not.toHaveBeenCalledBefore'' @ ''\<newline>\<newline>''
                 @ ''Expected first mock to not have been called before second mock, but it was.\<newline>\<newline>''
                 @ ''First mock call order: ''
                 @ printExpected (getMatcherUtils e) (Array (map Number a)) @ ''\<newline>''
                 @ ''Second mock call order: ''
                 @ printReceived (getMatcherUtils e) (Array (map Number b))
               else
                 matcherHint (getMatcherUtils e) ''.toHaveBeenCalledBefore'' @ ''\<newline>\<newline>''
                 @ ''Expected first mock to have been called before second mock, but it was not.\<newline>\<newline>''
                 @ ''First mock call order: ''
                 @ printExpected (getMatcherUtils e) (Array (map Number a)) @ ''\<newline>''
                 @ ''Second mock call order: ''
                 @ printReceived (getMatcherUtils e) (Array (map Number b)))
              Undefined Undefined"
    using subject other
    by (simp add: expectWrapper_def getMatcherState_def toHaveBeenCalledBefore_def Let_def
          split: if_splits)
qed

theorem toHaveBeenCalledBefore_failure_wording_witness:
  "obj (sample_assertion (MockFn [2]) False) = MockFn [2] \<and> arg [MockFn [1]] 0 = MockFn [1]
   \<and> expectWrapper sample_env 0 toHaveBeenCalledBefore (sample_assertion (MockFn [2]) False)
        [MockFn [1]]
      = Inl (JestExtendError
          (''expect(received).toHaveBeenCalledBefore\<newline>\<newline>''
           @ ''Expected first mock to have been called before second mock, but it was not.\<newline>\<newline>''
           @ ''First mock call order: <expected>\<newline>''
           @ ''Second mock call order: <received>'') Undefined Undefined)
   \<and> obj (sample_assertion (MockFn [1]) True) = MockFn [1] \<and> arg [MockFn [2]] 0 = MockFn [2]
   \<and> expectWrapper sample_env 0 toHaveBeenCalledBefore (sample_assertion (MockFn [1]) True)
        [MockFn [2]]
      = Inl (JestExtendError
          (''expect(received).not.toHaveBeenCalledBefore\<newline>\<newline>''
           @ ''Expected first mock to not have been called before second mock, but it was.\<newline>\<newline>''
           @ ''First mock call order: <expected>\<newline>''
           @ ''Second mock call order: <received>'') Undefined Undefined)"
proof -
  have s1: "obj (sample_assertion (MockFn [2]) False) = MockFn [2]"
    and s2: "obj (sample_assertion (MockFn [1]) True) = MockFn [1]"
    by (simp_all add: sample_assertion_def)
  have a1: "arg [MockFn [1]] 0 = MockFn [1]" and a2: "arg [MockFn [2]] 0 = MockFn [2]"
    by (simp_all add: arg_def)
  obtain f1 where f1: "expectWrapper sample_env 0 toHaveBeenCalledBefore
      (sample_assertion (MockFn [2]) False) [MockFn [1]] = Inl f1"
    by (simp add: expectWrapper_def getMatcherState_def toHaveBeenCalledBefore_def Let_def
          sample_assertion_def flag_def arg_def predicate_def Math_min_def)
  obtain f2 where f2: "expectWrapper sample_env 0 toHaveBeenCalledBefore
      (sample_assertion (MockFn [1]) True) [MockFn [2]] = Inl f2"
    by (simp add: expectWrapper_def getMatcherState_def toHaveBeenCalledBefore_def Let_def
          sample_assertion_def flag_def arg_def predicate_def Math_min_def)
  show ?thesis
    using toHaveBeenCalledBefore_failure_wording [OF s1 a1, of sample_env 0 f1] toHaveBeenCalledBefore_failure_wording [OF s2 a2, of sample_env 0 f2] f1 f2 s1 s2 a1 a2
    by (simp add: sample_env_def sample_utils_def flag_def sample_assertion_def)
qed

section \<open>The result of an asymmetric match\<close>

text \<open>
  Claim C10. When the matcher returns a promise for the context, value and sample of an
  asymmetric instance, \<^verbatim>\<open>asymmetricMatch\<close> returns \<^verbatim>\<open>undefined\<close> on the instance with
  \<open>inverse = false\<close> and \<^verbatim>\<open>true\<close> on the instance with \<open>inverse = true\<close>, whatever the
  promise settles to; the result is truthy exactly on the inverse instance.
\<close>

theorem asymmetricMatch_deferred_verdict:
  assumes "M (getMatcherContext e smp inverted x) other smp = Async p"
  shows "asymmetricMatch e (CustomMatcher name M x inverted smp) other
           = (if inverted then Bool True else Undefined)
         \<and> truthy (asymmetricMatch e (CustomMatcher name M x inverted smp) other) = inverted"
  using assms by (cases inverted) (simp_all add: asymmetricMatch_def CustomMatcher_def)

theorem asymmetricMatch_deferred_verdict_witness:
  "asymmetricMatch sample_env
      (CustomMatcher ''toResolve'' (deferredVerdict (Fulfilled \<lparr>pass = True,
          message = (\<lambda>_. ''late''), actual = Undefined, expected = Undefined\<rparr>)) 0 False [Null])
      (Number 1) = Undefined
   \<and> asymmetricMatch sample_env
      (CustomMatcher ''toResolve'' (deferredVerdict (Fulfilled \<lparr>pass = True,
          message = (\<lambda>_. ''late''), actual = Undefined, expected = Undefined\<rparr>)) 0 True [Null])
      (Number 1) = Bool True"
proof -
  have deferred: "deferredVerdict p (getMatcherContext sample_env [Null] inverted 0) (Number 1) [Null]
      = Async p" for p inverted
    by (simp add: deferredVerdict_def)
  show ?thesis
    using asymmetricMatch_deferred_verdict [where M = "deferredVerdict (Fulfilled \<lparr>pass = True,
                 message = (\<lambda>_. ''late''), actual = Undefined, expected = Undefined\<rparr>)"
               and e = sample_env and inverted = False and name = "''toResolve''", OF deferred]
          asymmetricMatch_deferred_verdict [where M = "deferredVerdict (Fulfilled \<lparr>pass = True,
                 message = (\<lambda>_. ''late''), actual = Undefined, expected = Undefined\<rparr>)"
               and e = sample_env and inverted = True and name = "''toResolve''", OF deferred]
    by simp
qed

text \<open>
  Claim C5, as amended. When the matcher returns synchronous verdicts, the instance with
  \<open>inverse = false\<close> returns the \<open>pass\<close> of the verdict for its context and the instance
  with \<open>inverse = true\<close> the negation of the \<open>pass\<close> of the verdict for its own context
  (\<^verbatim>\<open>getMatcherContext\<close> is called on the instance). The result of the inverse instance
  is the negation of the other's whenever the two verdicts agree on \<open>pass\<close>.
\<close>

theorem asymmetricMatch_sync_negation:
  assumes pos: "M (getMatcherContext e smp False x) other smp = Sync v"
      and neg: "M (getMatcherContext e smp True x) other smp = Sync v'"
  shows "asymmetricMatch e (CustomMatcher name M x False smp) other = Bool (pass v)
       \<and> asymmetricMatch e (CustomMatcher name M x True smp) other = Bool (\<not> pass v')
       \<and> (pass v' = pass v \<longrightarrow>
            asymmetricMatch e (CustomMatcher name M x True smp) other
              = Bool (\<not> truthy (asymmetricMatch e (CustomMatcher name M x False smp) other)))"
  using assms by (simp add: asymmetricMatch_def CustomMatcher_def)

theorem asymmetricMatch_sync_negation_witness:
  "asymmetricMatch sample_env (CustomMatcher ''toHaveBeenCalledBefore'' toHaveBeenCalledBefore 0 False [MockFn [3]])
      (MockFn [1, 5]) = Bool True
   \<and> asymmetricMatch sample_env (CustomMatcher ''toHaveBeenCalledBefore'' toHaveBeenCalledBefore 0 True [MockFn [3]])
      (MockFn [1, 5]) = Bool False"
proof -
  obtain v where v: "toHaveBeenCalledBefore (getMatcherContext sample_env [MockFn [3]] False 0)
       (MockFn [1, 5]) [MockFn [3]] = Sync v" and pv: "pass v"
    by (simp add: toHaveBeenCalledBefore_def Let_def arg_def predicate_def Math_min_def)
  obtain v' where v': "toHaveBeenCalledBefore (getMatcherContext sample_env [MockFn [3]] True 0)
       (MockFn [1, 5]) [MockFn [3]] = Sync v'" and pv': "pass v'"
    by (simp add: toHaveBeenCalledBefore_def Let_def arg_def predicate_def Math_min_def)
  show ?thesis
    using asymmetricMatch_sync_negation [where M = toHaveBeenCalledBefore and e = sample_env
               and name = "''toHaveBeenCalledBefore''", OF v v'] pv pv'
    by simp
qed

text \<open>
  Claim C5, as stated, fails. With a context whose \<^verbatim>\<open>isNot\<close> is the instance's
  \<^verbatim>\<open>inverse\<close>, a matcher that passes exactly when \<^verbatim>\<open>this.isNot\<close> holds makes both
  instances return \<^verbatim>\<open>false\<close> on the same sample and value.
\<close>

theorem asymmetricMatch_negation_not_symmetric:
  "asymmetricMatch sample_env (CustomMatcher ''toPassWhenNegated'' passWhenNegated 0 False [Null])
      (Number 1) = Bool False
   \<and> asymmetricMatch sample_env (CustomMatcher ''toPassWhenNegated'' passWhenNegated 0 True [Null])
      (Number 1) = Bool False
   \<and> asymmetricMatch sample_env (CustomMatcher ''toPassWhenNegated'' passWhenNegated 0 True [Null])
      (Number 1)
     \<noteq> Bool (\<not> truthy (asymmetricMatch sample_env
            (CustomMatcher ''toPassWhenNegated'' passWhenNegated 0 False [Null]) (Number 1)))"
  by (simp add: asymmetricMatch_def CustomMatcher_def passWhenNegated_def sample_env_def
        inverseMatcherContext_def)

end
